theory Spec2Isabelle
  imports Complex_Main "HOL-Library.Sublist" "HOL-Library.Multiset"
begin

section \<open>Python strings\<close>

text \<open>
  A Python \<open>str\<close> is modelled as a \<open>string\<close>: a list of characters with code points
  below 256. On that range \<open>str.isspace\<close> holds for the code points listed in
  \<open>py_isspace\<close>, and the regular expression class \<open>\d\<close> is the ASCII digits.
\<close>

definition py_isspace :: "char \<Rightarrow> bool" where
  "py_isspace c = (of_char c \<in> {9, 10, 11, 12, 13, 28, 29, 30, 31, 32, 133, 160 :: nat})"

definition strip :: "string \<Rightarrow> string" where
  "strip s = rev (dropWhile py_isspace (rev (dropWhile py_isspace s)))"

definition is_digit :: "char \<Rightarrow> bool" where
  "is_digit c = (48 \<le> (of_char c :: nat) \<and> (of_char c :: nat) \<le> 57)"

definition digit_val :: "char \<Rightarrow> nat" where
  "digit_val c = of_char c - 48"

definition is_hex :: "char \<Rightarrow> bool" where
  "is_hex c = (is_digit c \<or> (97 \<le> (of_char c :: nat) \<and> (of_char c :: nat) \<le> 102)
     \<or> (65 \<le> (of_char c :: nat) \<and> (of_char c :: nat) \<le> 70))"

definition hex_val :: "char \<Rightarrow> nat" where
  "hex_val c = (if is_digit c then of_char c - 48
     else if 97 \<le> (of_char c :: nat) then of_char c - 87 else of_char c - 55)"

text \<open>\<open>int(s)\<close> and \<open>int(s, 16)\<close> on a string of digits.\<close>

definition int_of_digits :: "string \<Rightarrow> nat" where
  "int_of_digits s = foldl (\<lambda>a c. 10 * a + digit_val c) 0 s"

definition int_of_hex :: "string \<Rightarrow> nat" where
  "int_of_hex s = foldl (\<lambda>a c. 16 * a + hex_val c) 0 s"

text \<open>\<open>str(n)\<close> for a non-negative integer, and for any integer.\<close>

fun str_nat :: "nat \<Rightarrow> string" where
  "str_nat n = (if n < 10 then [''0123456789'' ! n]
     else str_nat (n div 10) @ [''0123456789'' ! (n mod 10)])"

declare str_nat.simps [simp del]

definition str_int :: "int \<Rightarrow> string" where
  "str_int i = (if i < 0 then CHR ''-'' # str_nat (nat (- i)) else str_nat (nat i))"

text \<open>\<open>s.split()\<close>: the maximal runs of non-whitespace characters.\<close>

fun split_acc :: "string \<Rightarrow> string \<Rightarrow> string list" where
  "split_acc cur [] = (if cur = [] then [] else [rev cur])"
| "split_acc cur (c # cs) =
     (if py_isspace c then (if cur = [] then split_acc [] cs else rev cur # split_acc [] cs)
      else split_acc (c # cur) cs)"

definition split_ws :: "string \<Rightarrow> string list" where
  "split_ws s = split_acc [] s"

section \<open>Hash keys (serve.py)\<close>

text \<open>\<open>RAW_HASH_RE = ^\d+$\<close> and \<open>XXH64_TOKEN_RE = ^[0-9a-fA-F]{16}$\<close>, used with \<open>fullmatch\<close>.\<close>

definition RAW_HASH_RE :: "string \<Rightarrow> bool" where
  "RAW_HASH_RE s = (s \<noteq> [] \<and> list_all is_digit s)"

definition XXH64_TOKEN_RE :: "string \<Rightarrow> bool" where
  "XXH64_TOKEN_RE s = (length s = 16 \<and> list_all is_hex s)"

text \<open>
  The two hashing paths are the environment of \<open>hash_text_key\<close>. \<open>xxhash_mod\<close> is
  \<open>None\<close> when the import of the module failed; otherwise it maps the token to the
  digest, or to \<open>None\<close> when the call raises. \<open>xxhsum_bin\<close> is \<open>None\<close> when
  \<open>shutil.which\<close> found no binary; otherwise it maps the token to the return code and
  the decoded standard output of the subprocess, or to \<open>None\<close> when running it raises.
  The \<open>lru_cache\<close> on \<open>hash_text_key\<close> does not change its result in a fixed
  environment and is left out.
\<close>

record hash_env =
  xxhash_mod :: "(string \<Rightarrow> nat option) option"
  xxhsum_bin :: "(string \<Rightarrow> (int \<times> string) option) option"

definition xxhash_path :: "hash_env \<Rightarrow> string \<Rightarrow> string option" where
  "xxhash_path env token =
     (case xxhash_mod env of
        None \<Rightarrow> None
      | Some xxh64 \<Rightarrow> (case xxh64 token of None \<Rightarrow> None | Some d \<Rightarrow> Some (str_nat d)))"

definition xxhsum_path :: "hash_env \<Rightarrow> string \<Rightarrow> string option" where
  "xxhsum_path env token =
     (case xxhsum_bin env of
        None \<Rightarrow> None
      | Some run \<Rightarrow>
          (case run token of
             None \<Rightarrow> None
           | Some (returncode, stdout) \<Rightarrow>
               if returncode = 0 then
                 (case split_ws (strip stdout) of
                    [] \<Rightarrow> None
                  | first0 # _ \<Rightarrow>
                      if XXH64_TOKEN_RE first0 then Some (str_nat (int_of_hex first0)) else None)
               else None))"

definition hash_text_key :: "hash_env \<Rightarrow> string \<Rightarrow> string option" where
  "hash_text_key env raw_key =
     (let token = strip raw_key in
      if token = [] then None
      else if RAW_HASH_RE token then Some token
      else (case xxhash_path env token of
              Some h \<Rightarrow> Some h
            | None \<Rightarrow> xxhsum_path env token))"

section \<open>Text lookup (serve.py)\<close>

text \<open>
  The table \<open>text_map\<close> has the primary key \<open>(lang, hash)\<close> and a \<open>NOT NULL\<close> text,
  so the query of \<open>resolve_text_from_key\<close> is a lookup in a partial map.
\<close>

type_synonym text_map = "string \<times> string \<Rightarrow> string option"

definition resolve_text_from_key ::
    "hash_env \<Rightarrow> text_map \<Rightarrow> string \<Rightarrow> string option \<Rightarrow> string option" where
  "resolve_text_from_key env conn lang raw_key =
     (case raw_key of
        None \<Rightarrow> None
      | Some k \<Rightarrow>
          if k = [] then None
          else (case hash_text_key env k of
                  None \<Rightarrow> None
                | Some hashed \<Rightarrow> if hashed = [] then None else conn (lang, hashed)))"

text \<open>Python truthiness of an optional string: neither \<open>None\<close> nor empty.\<close>

definition truthy :: "string option \<Rightarrow> bool" where
  "truthy t = (t \<noteq> None \<and> t \<noteq> Some [])"

definition resolve_text_with_fallback ::
    "hash_env \<Rightarrow> text_map \<Rightarrow> string \<Rightarrow> string option \<Rightarrow> string option \<Rightarrow> string option" where
  "resolve_text_with_fallback env conn lang raw_key fallback =
     (if truthy (resolve_text_from_key env conn lang raw_key)
        then resolve_text_from_key env conn lang raw_key
      else if lang \<noteq> ''CHS'' \<and> truthy (resolve_text_from_key env conn ''CHS'' raw_key)
        then resolve_text_from_key env conn ''CHS'' raw_key
      else if lang \<noteq> ''EN'' \<and> truthy (resolve_text_from_key env conn ''EN'' raw_key)
        then resolve_text_from_key env conn ''EN'' raw_key
      else fallback)"

section \<open>Python floats\<close>

text \<open>
  A Python \<open>float\<close> is modelled as a real number: a finite value, with exact
  arithmetic. The rounding error of the binary representation, overflow, infinities
  and NaN are outside the model. \<open>round\<close> and the \<open>.Nf\<close> format round half to
  even, as CPython does on the exact value of the float.
\<close>

type_synonym pyfloat = real

definition round_half_even :: "real \<Rightarrow> int" where
  "round_half_even x =
     (let f = \<lfloor>x\<rfloor>; d = x - of_int f in
      if d < 1 / 2 then f else if 1 / 2 < d then f + 1 else if even f then f else f + 1)"

text \<open>\<open>round(x, n)\<close> and \<open>float.is_integer\<close>.\<close>

definition round_ndigits :: "pyfloat \<Rightarrow> nat \<Rightarrow> pyfloat" where
  "round_ndigits x n = of_int (round_half_even (x * 10 ^ n)) / 10 ^ n"

definition is_integer :: "pyfloat \<Rightarrow> bool" where
  "is_integer x = (of_int \<lfloor>x\<rfloor> = x)"

text \<open>
  \<open>f"{x:.{d}f}"\<close>: the sign of a negative value, the integer part, and \<open>d\<close>
  decimals when \<open>d > 0\<close>; \<open>s.rstrip(c)\<close> removes every trailing \<open>c\<close>.
\<close>

definition zfill :: "nat \<Rightarrow> string \<Rightarrow> string" where
  "zfill n s = replicate (n - length s) CHR ''0'' @ s"

definition format_fixed :: "pyfloat \<Rightarrow> nat \<Rightarrow> string" where
  "format_fixed x d =
     (let n = nat (round_half_even (\<bar>x\<bar> * 10 ^ d));
          body = str_nat (n div 10 ^ d) @ (if d = 0 then [] else CHR ''.'' # zfill d (str_nat (n mod 10 ^ d)))
      in if x < 0 then CHR ''-'' # body else body)"

definition rstrip_char :: "char \<Rightarrow> string \<Rightarrow> string" where
  "rstrip_char c s = rev (dropWhile (\<lambda>x. x = c) (rev s))"

text \<open>\<open>format_num\<close> (serve.py). The callers pass \<open>decimals\<close> parsed from digits.\<close>

definition format_num :: "pyfloat \<Rightarrow> nat option \<Rightarrow> bool \<Rightarrow> string" where
  "format_num value decimals trim =
     (case decimals of
        Some d \<Rightarrow>
          (let out = format_fixed value d in
           if trim \<and> d > 0 then rstrip_char CHR ''.'' (rstrip_char CHR ''0'' out) else out)
      | None \<Rightarrow>
          if is_integer value then str_int \<lfloor>value\<rfloor>
          else rstrip_char CHR ''.'' (rstrip_char CHR ''0'' (format_fixed value 4)))"

section \<open>Exceptions and JSON values\<close>

datatype py_error = IndexError | ValueError | OverflowError

text \<open>
  A value as \<open>json.load\<close> returns it. An object is an association list with
  distinct keys, in the order of the document; \<open>d.get(k)\<close> is \<open>dict_get\<close>.
\<close>

datatype json =
    JNull
  | JBool bool
  | JInt int
  | JFloat pyfloat
  | JStr string
  | JArr "json list"
  | JObj "(string \<times> json) list"

definition dict_get :: "(string \<times> json) list \<Rightarrow> string \<Rightarrow> json" where
  "dict_get kvs key = (case map_of kvs key of None \<Rightarrow> JNull | Some v \<Rightarrow> v)"

section \<open>Template parameters (serve.py)\<close>

text \<open>
  \<open>parse_param_values\<close> takes the two library functions it calls as parameters:
  \<open>json_loads\<close> (\<open>None\<close> when \<open>json.loads\<close> raises) and \<open>float_of_str\<close>
  (\<open>None\<close> when \<open>float(s)\<close> raises \<open>ValueError\<close>). \<open>param_value\<close> is the body
  of its loop; a \<open>bool\<close> is an \<open>int\<close> in Python and is converted like one.
\<close>

definition param_value :: "(string \<Rightarrow> pyfloat option) \<Rightarrow> json \<Rightarrow> pyfloat option" where
  "param_value float_of_str item =
     (case (case item of JObj kvs \<Rightarrow> dict_get kvs ''Value'' | _ \<Rightarrow> item) of
        JInt i \<Rightarrow> Some (of_int i)
      | JBool b \<Rightarrow> Some (if b then 1 else 0)
      | JFloat x \<Rightarrow> Some x
      | JStr s \<Rightarrow> float_of_str s
      | _ \<Rightarrow> None)"

definition parse_param_values ::
    "(string \<Rightarrow> json option) \<Rightarrow> (string \<Rightarrow> pyfloat option) \<Rightarrow> json \<Rightarrow> pyfloat list" where
  "parse_param_values json_loads float_of_str raw =
     (case (case raw of JStr s \<Rightarrow> json_loads s | _ \<Rightarrow> Some raw) of
        None \<Rightarrow> []
      | Some data \<Rightarrow>
          (case data of
             JArr items \<Rightarrow> List.map_filter (param_value float_of_str) items
           | _ \<Rightarrow> []))"

section \<open>The placeholder pattern (serve.py)\<close>

text \<open>
  \<open>SKILL_PARAM_RE = #(\d+)(?:\[([^\]]+)\])?(%)?\<close>. A match object is the record of its
  groups. \<open>SKILL_PARAM_RE s\<close> matches the pattern at the start of \<open>s\<close> and returns
  the match and the rest of the string. The digits are matched greedily; the bracket
  group matches when a non-empty run of characters other than \<open>]\<close> is followed by
  \<open>]\<close>; both optional groups are tried greedily and never make the match fail.
\<close>

record match =
  group0 :: string
  group1 :: string
  group2 :: "string option"
  group3 :: "string option"

definition match_bracket :: "string \<Rightarrow> (string \<times> string) option" where
  "match_bracket s =
     (case s of
        c # r \<Rightarrow>
          if c = CHR ''[''
          then (let body = takeWhile (\<lambda>x. x \<noteq> CHR '']'') r;
                    rest = dropWhile (\<lambda>x. x \<noteq> CHR '']'') r
                in if body \<noteq> [] \<and> rest \<noteq> [] then Some (body, tl rest) else None)
          else None
      | [] \<Rightarrow> None)"

definition match_percent :: "string \<Rightarrow> (string \<times> string) option" where
  "match_percent s =
     (case s of c # r \<Rightarrow> if c = CHR ''%'' then Some ([c], r) else None | [] \<Rightarrow> None)"

definition SKILL_PARAM_RE :: "string \<Rightarrow> (match \<times> string) option" where
  "SKILL_PARAM_RE s =
     (case s of
        [] \<Rightarrow> None
      | c # r \<Rightarrow>
          if c = CHR ''#'' \<and> takeWhile is_digit r \<noteq> []
          then
            (let digits = takeWhile is_digit r;
                 r1 = dropWhile is_digit r;
                 g2 = match_bracket r1;
                 r2 = (case g2 of None \<Rightarrow> r1 | Some (_, rest) \<Rightarrow> rest);
                 g3 = match_percent r2;
                 r3 = (case g3 of None \<Rightarrow> r2 | Some (_, rest) \<Rightarrow> rest)
             in Some (\<lparr>group0 = take (length s - length r3) s,
                        group1 = digits,
                        group2 = map_option fst g2,
                        group3 = map_option fst g3\<rparr>, r3))
          else None)"

text \<open>
  \<open>re.sub\<close> scans the string from the left: at each position the pattern either
  matches (and the scan continues after the match) or the character is copied.
  \<open>finditer\<close> is that scan, \<open>sub_pieces\<close> replaces each match by the result of
  the callback, stopping at the first exception.
\<close>

datatype piece = Lit char | Tok match

lemma match_bracket_suffix:
  assumes "match_bracket s = Some (b, r)"
  shows "suffix r s \<and> length r < length s"
proof -
  from assms obtain t where s: "s = CHR ''['' # t"
    and r: "r = tl (dropWhile (\<lambda>x. x \<noteq> CHR '']'') t)"
    by (auto simp: match_bracket_def Let_def split: list.splits if_splits)
  have "suffix (dropWhile (\<lambda>x. x \<noteq> CHR '']'') t) t" by (rule suffix_dropWhile)
  then have "suffix r t" unfolding r by (meson suffix_order.trans suffix_tl)
  then show ?thesis
    unfolding s by (auto simp: suffix_Cons dest: suffix_length_le)
qed

lemma match_percent_suffix:
  "match_percent s = Some (b, r) \<Longrightarrow> suffix r s \<and> length r < length s"
  by (auto simp: match_percent_def suffix_Cons split: list.splits if_splits)

lemma SKILL_PARAM_RE_suffix:
  assumes "SKILL_PARAM_RE s = Some (m, r)"
  shows "suffix r s \<and> length r < length s"
proof -
  from assms obtain t where s: "s = CHR ''#'' # t"
    by (auto simp: SKILL_PARAM_RE_def split: list.splits if_splits)
  define r1 where "r1 = dropWhile is_digit t"
  define r2 where "r2 = (case match_bracket r1 of None \<Rightarrow> r1 | Some (_, rest) \<Rightarrow> rest)"
  define r3 where "r3 = (case match_percent r2 of None \<Rightarrow> r2 | Some (_, rest) \<Rightarrow> rest)"
  have r: "r = r3"
    using assms unfolding s r1_def r2_def r3_def
    by (auto simp: SKILL_PARAM_RE_def Let_def split: if_splits)
  have 1: "suffix r1 t" unfolding r1_def by (rule suffix_dropWhile)
  have 2: "suffix r2 r1"
    unfolding r2_def by (auto split: option.splits dest: match_bracket_suffix)
  have 3: "suffix r3 r2"
    unfolding r3_def by (auto split: option.splits dest: match_percent_suffix)
  from 1 2 3 have "suffix r t" unfolding r by (meson suffix_order.trans)
  then show ?thesis
    unfolding s by (auto simp: suffix_Cons dest: suffix_length_le)
qed

lemma SKILL_PARAM_RE_shorter: "SKILL_PARAM_RE s = Some (m, r) \<Longrightarrow> length r < length s"
  by (simp add: SKILL_PARAM_RE_suffix)


function finditer :: "string \<Rightarrow> piece list" where
  "finditer [] = []"
| "finditer (c # cs) =
     (case SKILL_PARAM_RE (c # cs) of
        Some (m, rest) \<Rightarrow> Tok m # finditer rest
      | None \<Rightarrow> Lit c # finditer cs)"
  by pat_completeness auto
termination
  by (relation "measure length") (auto dest: SKILL_PARAM_RE_shorter)

declare finditer.simps [simp del]

section \<open>Template rendering (serve.py)\<close>

text \<open>\<open>xs[i]\<close> on a list: a negative index counts from the end.\<close>

definition py_getitem :: "'a list \<Rightarrow> int \<Rightarrow> py_error + 'a" where
  "py_getitem xs i =
     (let j = (if i < 0 then i + int (length xs) else i)
      in if j < 0 \<or> int (length xs) \<le> j then Inl IndexError else Inr (xs ! nat j))"

text \<open>\<open>str.lower\<close> on code points below 256.\<close>

definition upper_chars :: string where
  "upper_chars = ''ABCDEFGHIJKLMNOPQRSTUVWXYZ'' @
     [CHR 0xC0, CHR 0xC1, CHR 0xC2, CHR 0xC3, CHR 0xC4, CHR 0xC5, CHR 0xC6, CHR 0xC7,
      CHR 0xC8, CHR 0xC9, CHR 0xCA, CHR 0xCB, CHR 0xCC, CHR 0xCD, CHR 0xCE, CHR 0xCF,
      CHR 0xD0, CHR 0xD1, CHR 0xD2, CHR 0xD3, CHR 0xD4, CHR 0xD5, CHR 0xD6,
      CHR 0xD8, CHR 0xD9, CHR 0xDA, CHR 0xDB, CHR 0xDC, CHR 0xDD, CHR 0xDE]"

definition lower_chars :: string where
  "lower_chars = ''abcdefghijklmnopqrstuvwxyz'' @
     [CHR 0xE0, CHR 0xE1, CHR 0xE2, CHR 0xE3, CHR 0xE4, CHR 0xE5, CHR 0xE6, CHR 0xE7,
      CHR 0xE8, CHR 0xE9, CHR 0xEA, CHR 0xEB, CHR 0xEC, CHR 0xED, CHR 0xEE, CHR 0xEF,
      CHR 0xF0, CHR 0xF1, CHR 0xF2, CHR 0xF3, CHR 0xF4, CHR 0xF5, CHR 0xF6,
      CHR 0xF8, CHR 0xF9, CHR 0xFA, CHR 0xFB, CHR 0xFC, CHR 0xFD, CHR 0xFE]"

definition lower :: "string \<Rightarrow> string" where
  "lower s = map (\<lambda>c. case map_of (zip upper_chars lower_chars) c of None \<Rightarrow> c | Some l \<Rightarrow> l) s"

text \<open>\<open>re.match(r"f(\d+)", fmt)\<close>, and \<open>int(m.group(1)) if m else 0\<close>.\<close>

definition fmt_decimals :: "string \<Rightarrow> nat" where
  "fmt_decimals fmt =
     (case fmt of
        [] \<Rightarrow> 0
      | c # r \<Rightarrow>
          if c = CHR ''f'' \<and> takeWhile is_digit r \<noteq> [] then int_of_digits (takeWhile is_digit r)
          else 0)"

text \<open>The callback \<open>repl\<close> of \<open>apply_param_template\<close>, for the parameters \<open>params\<close>.\<close>

definition repl :: "pyfloat list \<Rightarrow> match \<Rightarrow> py_error + string" where
  "repl params m =
     (let index = int (int_of_digits (group1 m)) - 1;
          fmt = lower (strip (case group2 m of None \<Rightarrow> [] | Some g \<Rightarrow> g));
          is_percent = (case group3 m of None \<Rightarrow> False | Some g \<Rightarrow> g \<noteq> [])
      in if index < 0 \<or> index \<ge> int (length params) then Inr (group0 m)
         else
           (case py_getitem params index of
              Inl e \<Rightarrow> Inl e
            | Inr p \<Rightarrow>
                (let value = (if is_percent then p * 100 else p);
                     rendered =
                       (if prefix ''i'' fmt then str_int (round_half_even value)
                        else if prefix ''f'' fmt
                          then format_num value (Some (fmt_decimals fmt)) False
                        else format_num value None True)
                 in Inr (rendered @ (if is_percent then ''%'' else [])))))"

fun sub_pieces :: "(match \<Rightarrow> py_error + string) \<Rightarrow> piece list \<Rightarrow> py_error + string" where
  "sub_pieces r [] = Inr []"
| "sub_pieces r (Lit c # ps) =
     (case sub_pieces r ps of Inl e \<Rightarrow> Inl e | Inr out \<Rightarrow> Inr (c # out))"
| "sub_pieces r (Tok m # ps) =
     (case r m of
        Inl e \<Rightarrow> Inl e
      | Inr s \<Rightarrow> (case sub_pieces r ps of Inl e \<Rightarrow> Inl e | Inr out \<Rightarrow> Inr (s @ out)))"

definition re_sub :: "(match \<Rightarrow> py_error + string) \<Rightarrow> string \<Rightarrow> py_error + string" where
  "re_sub r s = sub_pieces r (finditer s)"

definition apply_param_template ::
    "(string \<Rightarrow> json option) \<Rightarrow> (string \<Rightarrow> pyfloat option) \<Rightarrow> string option \<Rightarrow> json
      \<Rightarrow> py_error + string option" where
  "apply_param_template json_loads float_of_str template raw_params =
     (case template of
        None \<Rightarrow> Inr None
      | Some t \<Rightarrow>
          (let params = parse_param_values json_loads float_of_str raw_params in
           if params = [] then Inr (Some t)
           else (case re_sub (repl params) t of Inl e \<Rightarrow> Inl e | Inr out \<Rightarrow> Inr (Some out))))"

section \<open>Level statistics (serve.py)\<close>

text \<open>
  A row of \<open>avatar_promotion\<close> as \<open>build_avatar_level_stats\<close> reads it: the keys it
  gets from the dictionary, each absent or \<open>NULL\<close> (\<open>None\<close>) or a value.
\<close>

record promotion_row =
  promotion :: "int option"
  max_level :: "int option"
  hp_base :: "pyfloat option"
  hp_add :: "pyfloat option"
  attack_base :: "pyfloat option"
  attack_add :: "pyfloat option"
  defence_base :: "pyfloat option"
  defence_add :: "pyfloat option"
  speed_base :: "pyfloat option"

text \<open>A dictionary of the result; \<open>stage_promotion\<close> is its key \<open>"promotion"\<close>.\<close>

record level_stats =
  level :: int
  stage_promotion :: "int option"
  hp :: "pyfloat option"
  attack :: "pyfloat option"
  defence :: "pyfloat option"
  speed :: "pyfloat option"

definition stat_at_level :: "pyfloat option \<Rightarrow> pyfloat option \<Rightarrow> int \<Rightarrow> pyfloat option" where
  "stat_at_level base growth lvl =
     (case base of
        None \<Rightarrow> None
      | Some b \<Rightarrow>
          (case growth of
             None \<Rightarrow> Some (round_ndigits b 4)
           | Some g \<Rightarrow> Some (round_ndigits (b + g * of_int (lvl - 1)) 4)))"

text \<open>The sort key and the test of the generator: \<open>int(x.get("max_level") or 0)\<close>.\<close>

definition max_level_key :: "promotion_row \<Rightarrow> int" where
  "max_level_key x = (case max_level x of None \<Rightarrow> 0 | Some n \<Rightarrow> n)"

text \<open>\<open>valid\<close> after the stable sort, and \<open>next((p for p in valid if ...), valid[-1])\<close>.\<close>

definition sorted_valid :: "promotion_row list \<Rightarrow> promotion_row list" where
  "sorted_valid promotions =
     sort_key max_level_key (filter (\<lambda>row. max_level row \<noteq> None) promotions)"

definition select_stage :: "promotion_row list \<Rightarrow> int \<Rightarrow> promotion_row" where
  "select_stage valid lvl =
     (case find (\<lambda>p. lvl \<le> max_level_key p) valid of Some p \<Rightarrow> p | None \<Rightarrow> last valid)"

definition level_row :: "promotion_row \<Rightarrow> int \<Rightarrow> level_stats" where
  "level_row stage lvl =
     \<lparr>level = lvl,
      stage_promotion = promotion stage,
      hp = stat_at_level (hp_base stage) (hp_add stage) lvl,
      attack = stat_at_level (attack_base stage) (attack_add stage) lvl,
      defence = stat_at_level (defence_base stage) (defence_add stage) lvl,
      speed = stat_at_level (speed_base stage) None lvl\<rparr>"

definition build_avatar_level_stats :: "promotion_row list \<Rightarrow> int \<Rightarrow> level_stats list" where
  "build_avatar_level_stats promotions level_max =
     (let valid = sorted_valid promotions in
      if valid = [] then []
      else map (\<lambda>lvl. level_row (select_stage valid lvl) lvl) [1..level_max])"

section \<open>Reference extraction (build_db.py)\<close>











text \<open>
  A row of the result and the key of the set \<open>seen\<close>: the row without its first two
  components. The state of the walk is the list \<open>rows\<close> and the set \<open>seen\<close>.
\<close>

record reference_row =
  source_path :: string
  source_group_of :: string
  json_path :: string
  task_type :: "string option"
  talk_sentence_id :: "int option"
  timeline_name :: "string option"
  performance_type :: "string option"
  performance_id :: "int option"
  trigger_custom_string :: "string option"
  custom_string :: "string option"

type_synonym ref_key =
  "string \<times> string option \<times> int option \<times> string option \<times> string option \<times> int option
    \<times> string option \<times> string option"

record walk_state =
  rows :: "reference_row list"
  seen :: "ref_key set"




section \<open>Module closure (build_module_dbs.py)\<close>

text \<open>
  The tables the closure reads, with the columns it selects and, for \<open>avatar_rank\<close>,
  the column \<open>trigger_hash\<close> of the schema (build_db.py). A \<open>TEXT\<close> column holds a
  string or \<open>NULL\<close>. \<open>avatar_promotion\<close> has no hash column. \<open>needed_hash\<close> is the
  temporary table with the primary key \<open>hash\<close>: a set.
\<close>

record avatar_row =
  avatar_id :: int
  avatar_name_hash :: "string option"
  avatar_full_name_hash :: "string option"

record avatar_skill_row =
  skill_id :: int
  skill_level :: int
  skill_name_hash :: "string option"
  skill_desc_hash :: "string option"
  skill_tag_hash :: "string option"

record avatar_rank_row =
  rank_id :: int
  trigger_hash :: "string option"
  name_raw :: "string option"
  desc_raw :: "string option"
  rank_ability_json :: "string option"

record talk_sentence_row =
  talk_speaker_hash :: "string option"
  talk_text_hash :: "string option"

record main_mission_row =
  mission_name_hash :: "string option"

record sub_mission_row =
  target_hash :: "string option"
  description_hash :: "string option"

record item_row =
  item_name_hash :: "string option"
  item_desc_hash :: "string option"
  item_bg_desc_hash :: "string option"

record module_db =
  avatar :: "avatar_row list"
  avatar_promotion :: "promotion_row list"
  avatar_skill :: "avatar_skill_row list"
  avatar_rank :: "avatar_rank_row list"
  talk_sentence :: "talk_sentence_row list"
  main_mission :: "main_mission_row list"
  sub_mission :: "sub_mission_row list"
  item :: "item_row list"
  needed_hash :: "string set"

text \<open>
  The index structures that the loaders of serve.py return, with the keys the closure
  reads. Each is \<open>None\<close> in \<open>indexes\<close> when loading it raises.
\<close>

record story_index =
  stories_by_avatar :: "(int \<times> string option list) list"
  story_name_hash_by_id :: "(int \<times> string option) list"

record light_cone_level =
  lc_skill_name_hash :: "string option"
  lc_skill_desc_hash :: "string option"

record monster_item =
  monster_name_hash :: "string option"
  monster_introduction_hash :: "string option"
  ability_name_keys :: "string list"

record monster_skill =
  mskill_name_hash :: "string option"
  mskill_desc_hash :: "string option"
  mskill_type_desc_hash :: "string option"
  mskill_tag_hash :: "string option"

record monster_index =
  monster_items :: "monster_item list"
  monster_skills :: "monster_skill list"

record indexes =
  avatar_story_index :: "story_index option"
  light_cone_index :: "light_cone_level list list option"
  monster_index_of :: "monster_index option"

definition add_hash_if_any :: "hash_env \<Rightarrow> string set \<Rightarrow> string option \<Rightarrow> string set" where
  "add_hash_if_any env out raw =
     (case raw of
        None \<Rightarrow> out
      | Some r \<Rightarrow>
          if r = [] then out
          else (case hash_text_key env r of
                  None \<Rightarrow> out
                | Some h \<Rightarrow> if h = [] then out else insert h out))"

text \<open>
  \<open>add_hashes_from_sql\<close> with the statement
  \<open>SELECT c FROM t WHERE c IS NOT NULL AND c != ''\<close>, given the values of the column:
  \<open>INSERT OR IGNORE\<close> adds the selected values to the set.
\<close>

definition add_hashes_from_sql :: "string option list \<Rightarrow> module_db \<Rightarrow> module_db" where
  "add_hashes_from_sql col conn =
     conn\<lparr>needed_hash := needed_hash conn \<union> {h. Some h \<in> set col \<and> h \<noteq> []}\<rparr>"

definition add_hashes_from_iter :: "string set \<Rightarrow> module_db \<Rightarrow> module_db" where
  "add_hashes_from_iter hashes conn =
     conn\<lparr>needed_hash := needed_hash conn \<union> {h \<in> hashes. h \<noteq> []}\<rparr>"

text \<open>The strings of \<open>rank_ability_json\<close>: \<open>json.loads\<close> of the column, or of \<open>"[]"\<close>.\<close>

definition rank_ability_keys :: "(string \<Rightarrow> json option) \<Rightarrow> string option \<Rightarrow> string list" where
  "rank_ability_keys json_loads col =
     (case json_loads (case col of None \<Rightarrow> ''[]'' | Some s \<Rightarrow> s) of
        Some (JArr arr) \<Rightarrow> List.map_filter (\<lambda>item. case item of JStr s \<Rightarrow> Some s | _ \<Rightarrow> None) arr
      | _ \<Rightarrow> [])"

text \<open>
  The loops of \<open>gather_module_hashes\<close> call \<open>add_hash_if_any\<close> on a sequence of
  keys: \<open>add_all\<close> is such a loop, and the functions after it list the keys in the
  order of the loops, for a row of \<open>avatar_rank\<close> and for each index structure.
\<close>

definition add_all :: "hash_env \<Rightarrow> string option list \<Rightarrow> string set \<Rightarrow> string set" where
  "add_all env raws out = foldl (add_hash_if_any env) out raws"

definition rank_row_keys :: "(string \<Rightarrow> json option) \<Rightarrow> avatar_rank_row \<Rightarrow> string option list" where
  "rank_row_keys json_loads row =
     [name_raw row, desc_raw row] @ map Some (rank_ability_keys json_loads (rank_ability_json row))"

definition story_keys :: "story_index \<Rightarrow> string option list" where
  "story_keys idx = concat (map snd (stories_by_avatar idx)) @ map snd (story_name_hash_by_id idx)"

definition light_cone_keys :: "light_cone_level list list \<Rightarrow> string option list" where
  "light_cone_keys idx =
     concat (map (\<lambda>levels. concat (map (\<lambda>lv. [lc_skill_name_hash lv, lc_skill_desc_hash lv]) levels)) idx)"

definition monster_keys :: "monster_index \<Rightarrow> string option list" where
  "monster_keys idx =
     concat (map (\<lambda>it. [monster_name_hash it, monster_introduction_hash it]
                    @ map Some (ability_name_keys it)) (monster_items idx))
     @ concat (map (\<lambda>sk. [mskill_name_hash sk, mskill_desc_hash sk, mskill_type_desc_hash sk,
                          mskill_tag_hash sk]) (monster_skills idx))"

text \<open>
  \<open>gather_module_hashes\<close> returns the set \<open>out\<close> and leaves the connection with the
  hashes added by \<open>add_hashes_from_sql\<close>.
\<close>

definition gather_module_hashes ::
    "hash_env \<Rightarrow> (string \<Rightarrow> json option) \<Rightarrow> indexes \<Rightarrow> module_db \<Rightarrow> string
      \<Rightarrow> string set \<times> module_db" where
  "gather_module_hashes env json_loads idx conn module_name =
     (if module_name = ''avatar'' then
        (let conn1 = add_hashes_from_sql (map avatar_name_hash (avatar conn)) conn;
             conn2 = add_hashes_from_sql (map avatar_full_name_hash (avatar conn1)) conn1;
             conn3 = add_hashes_from_sql (map skill_name_hash (avatar_skill conn2)) conn2;
             conn4 = add_hashes_from_sql (map skill_desc_hash (avatar_skill conn3)) conn3;
             conn5 = add_hashes_from_sql (map skill_tag_hash (avatar_skill conn4)) conn4;
             out1 = add_all env (concat (map (rank_row_keys json_loads) (avatar_rank conn5))) {};
             out2 = (case avatar_story_index idx of
                       None \<Rightarrow> out1
                     | Some stories \<Rightarrow> add_all env (story_keys stories) out1)
         in (out2, conn5))
      else if module_name = ''dialogue'' then
        (let conn1 = add_hashes_from_sql (map talk_speaker_hash (talk_sentence conn)) conn;
             conn2 = add_hashes_from_sql (map talk_text_hash (talk_sentence conn1)) conn1
         in ({}, conn2))
      else if module_name = ''mission'' then
        (let conn1 = add_hashes_from_sql (map mission_name_hash (main_mission conn)) conn;
             conn2 = add_hashes_from_sql (map target_hash (sub_mission conn1)) conn1;
             conn3 = add_hashes_from_sql (map description_hash (sub_mission conn2)) conn2
         in ({}, conn3))
      else if module_name = ''item'' then
        (let conn1 = add_hashes_from_sql (map item_name_hash (item conn)) conn;
             conn2 = add_hashes_from_sql (map item_desc_hash (item conn1)) conn1;
             conn3 = add_hashes_from_sql (map item_bg_desc_hash (item conn2)) conn2;
             out1 = (case light_cone_index idx of
                       None \<Rightarrow> {}
                     | Some lc \<Rightarrow> add_all env (light_cone_keys lc) {})
         in (out1, conn3))
      else if module_name = ''monster'' then
        ((case monster_index_of idx of
            None \<Rightarrow> {}
          | Some mi \<Rightarrow> add_all env (monster_keys mi) {}), conn)
      else ({}, conn))"

text \<open>
  The closure of a module, as \<open>build_one_module\<close> computes it before it copies the
  texts: the table \<open>needed_hash\<close> after \<open>gather_module_hashes\<close> and
  \<open>add_hashes_from_iter\<close>, starting from the empty table.
\<close>

definition module_closure ::
    "hash_env \<Rightarrow> (string \<Rightarrow> json option) \<Rightarrow> indexes \<Rightarrow> module_db \<Rightarrow> string \<Rightarrow> string set" where
  "module_closure env json_loads idx conn module_name =
     (let (extra, conn1) =
            gather_module_hashes env json_loads idx (conn\<lparr>needed_hash := {}\<rparr>) module_name
      in needed_hash (add_hashes_from_iter extra conn1))"

section \<open>Conditions and inputs used in the statements\<close>

text \<open>
  The in-process path fails when the module is missing or its call raises; the external
  path fails when there is no binary, running it raises, it exits with a non-zero code,
  or its output does not start with a token of sixteen hexadecimal digits.
\<close>

definition xxhash_fails :: "hash_env \<Rightarrow> string \<Rightarrow> bool" where
  "xxhash_fails env token =
     (xxhash_mod env = None \<or> (\<exists>xxh64. xxhash_mod env = Some xxh64 \<and> xxh64 token = None))"

definition xxhsum_fails :: "hash_env \<Rightarrow> string \<Rightarrow> bool" where
  "xxhsum_fails env token =
     (xxhsum_bin env = None \<or>
      (\<exists>run. xxhsum_bin env = Some run \<and>
         (run token = None \<or>
          (\<exists>returncode stdout. run token = Some (returncode, stdout) \<and>
             (returncode \<noteq> 0 \<or> split_ws (strip stdout) = [] \<or>
              \<not> XXH64_TOKEN_RE (hd (split_ws (strip stdout))))))))"

definition no_hash_env :: hash_env where
  "no_hash_env = \<lparr>xxhash_mod = None, xxhsum_bin = None\<rparr>"

definition failing_hash_env :: hash_env where
  "failing_hash_env =
     \<lparr>xxhash_mod = Some (\<lambda>_. None), xxhsum_bin = Some (\<lambda>_. Some (1, []))\<rparr>"

definition empty_text_store :: text_map where
  "empty_text_store = map_of [((''JP'', ''123''), []), ((''CHS'', ''123''), ''abc'')]"







text \<open>The inputs of the examples.\<close>

definition no_json_loads :: "string \<Rightarrow> json option" where
  "no_json_loads s = None"

definition no_float_of_str :: "string \<Rightarrow> pyfloat option" where
  "no_float_of_str s = None"

definition stun_template :: string where
  "stun_template = ''Deals #1[i] damage and #2% chance to stun.''"

definition stun_params :: "pyfloat list" where
  "stun_params = [1504 / 10, 35 / 100]"

definition stun_raw :: json where
  "stun_raw = JArr [JFloat (1504 / 10), JFloat (35 / 100)]"

definition tok_1i :: match where
  "tok_1i = \<lparr>group0 = ''#1[i]'', group1 = ''1'', group2 = Some ''i'', group3 = None\<rparr>"

definition tok_2pct :: match where
  "tok_2pct = \<lparr>group0 = ''#2%'', group1 = ''2'', group2 = None, group3 = Some ''%''\<rparr>"


text \<open>
  \<open>curve_ok base growth ps\<close>: on the breakpoints with a defined \<open>max_level\<close>, base
  and growth are defined, the growth is not negative, and neither decreases from a
  breakpoint to one with the same or a greater \<open>max_level\<close>. \<open>nondecreasing\<close>: every
  value is defined and none is greater than a later one. \<open>selected valid lvl stage\<close>:
  the stage is the first of \<open>valid\<close> with \<open>lvl \<le> max_level\<close>, or the last of
  \<open>valid\<close> when no breakpoint has \<open>lvl \<le> max_level\<close>. \<open>brk\<close> builds a breakpoint
  for the examples, with the same base and growth for the three attributes.
\<close>

definition brk :: "int \<Rightarrow> int \<Rightarrow> pyfloat \<Rightarrow> pyfloat \<Rightarrow> pyfloat \<Rightarrow> promotion_row" where
  "brk st ml base growth spd =
     \<lparr>promotion = Some st, max_level = Some ml,
      hp_base = Some base, hp_add = Some growth,
      attack_base = Some base, attack_add = Some growth,
      defence_base = Some base, defence_add = Some growth,
      speed_base = Some spd\<rparr>"

definition falling_curve :: "promotion_row list" where
  "falling_curve = [brk 0 20 100 5 100, brk 1 40 50 5 100]"

definition curve_ok ::
    "(promotion_row \<Rightarrow> pyfloat option) \<Rightarrow> (promotion_row \<Rightarrow> pyfloat option)
      \<Rightarrow> promotion_row list \<Rightarrow> bool" where
  "curve_ok base growth ps =
     (\<forall>p \<in> set ps. \<forall>q \<in> set ps.
        max_level p \<noteq> None \<and> max_level q \<noteq> None \<and> max_level_key p \<le> max_level_key q \<longrightarrow>
        (\<exists>b g b' g'. base p = Some b \<and> growth p = Some g \<and> base q = Some b' \<and> growth q = Some g'
           \<and> 0 \<le> g \<and> b \<le> b' \<and> g \<le> g'))"

definition nondecreasing :: "pyfloat option list \<Rightarrow> bool" where
  "nondecreasing xs =
     (\<forall>i j. i \<le> j \<and> j < length xs \<longrightarrow> (\<exists>a b. xs ! i = Some a \<and> xs ! j = Some b \<and> a \<le> b))"

definition rising_curve :: "promotion_row list" where
  "rising_curve = [brk 1 40 150 5 100, brk 0 20 100 5 100]"



















text \<open>The inputs of the examples for the closure.\<close>

definition empty_db :: module_db where
  "empty_db = \<lparr>avatar = [], avatar_promotion = [], avatar_skill = [], avatar_rank = [],
     talk_sentence = [], main_mission = [], sub_mission = [], item = [], needed_hash = {}\<rparr>"

definition no_indexes :: indexes where
  "no_indexes = \<lparr>avatar_story_index = None, light_cone_index = None, monster_index_of = None\<rparr>"

definition trigger_rank :: avatar_rank_row where
  "trigger_rank = \<lparr>rank_id = 100101, trigger_hash = Some ''777'', name_raw = None,
     desc_raw = None, rank_ability_json = None\<rparr>"

definition trigger_db :: module_db where
  "trigger_db = empty_db\<lparr>avatar_rank := [trigger_rank]\<rparr>"

definition named_db :: module_db where
  "named_db = empty_db\<lparr>avatar :=
     [\<lparr>avatar_id = 1001, avatar_name_hash = Some ''123'', avatar_full_name_hash = None\<rparr>]\<rparr>"

section \<open>Hash keys and text lookup: results\<close>

lemma dropWhile_all: "list_all P s \<Longrightarrow> dropWhile P s = []"
  by (induction s) auto

lemma strip_all_space: "list_all py_isspace s \<Longrightarrow> strip s = []"
  by (simp add: strip_def dropWhile_all)

lemma hash_123: "hash_text_key env ''123'' = Some ''123''"
  by (simp add: hash_text_key_def strip_def py_isspace_def RAW_HASH_RE_def is_digit_def)

lemma xxhash_fails_path: "xxhash_fails env token \<Longrightarrow> xxhash_path env token = None"
  by (auto simp: xxhash_fails_def xxhash_path_def)

lemma xxhsum_fails_path: "xxhsum_fails env token \<Longrightarrow> xxhsum_path env token = None"
  by (auto simp: xxhsum_fails_def xxhsum_path_def split: list.splits)

lemma fallback_chain_filter:
  "resolve_text_with_fallback env conn lang raw_key fallback =
     (case filter truthy
        (map (\<lambda>l. resolve_text_from_key env conn l raw_key) [lang, ''CHS'', ''EN'']) of
        [] \<Rightarrow> fallback
      | text # _ \<Rightarrow> text)"
proof (cases "lang = ''CHS''")
  case True
  then show ?thesis by (simp add: resolve_text_with_fallback_def)
next
  case False
  then show ?thesis
    by (cases "lang = ''EN''") (simp_all add: resolve_text_with_fallback_def)
qed

lemma str_nat_nonempty: "str_nat n \<noteq> []"
  by (subst str_nat.simps) simp

lemma hash_text_key_nonempty: "hash_text_key env k \<noteq> Some []"
  by (auto simp: hash_text_key_def Let_def xxhash_path_def xxhsum_path_def str_nat_nonempty
      split: option.splits list.splits)

lemma fallback_primary_nonempty:
  assumes "raw_key = Some k" "k \<noteq> []" "hash_text_key env k = Some h"
    "conn (lang, h) = Some t" "t \<noteq> []"
  shows "resolve_text_with_fallback env conn lang raw_key fallback = Some t"
proof -
  have "h \<noteq> []"
    using assms(3) hash_text_key_nonempty [of env k] by auto
  then have "resolve_text_from_key env conn lang raw_key = Some t"
    using assms by (simp add: resolve_text_from_key_def)
  then show ?thesis
    using assms(5) by (simp add: resolve_text_with_fallback_def truthy_def)
qed

text \<open>
  C8. A key that is empty or only whitespace is unresolved. A key whose trimmed form is
  a non-empty string of decimal digits resolves to the trimmed key, in every hashing
  environment; so \<open>"123"\<close> resolves to \<open>"123"\<close>.
\<close>

theorem hash_text_key_numeral:
  "(list_all py_isspace raw_key \<longrightarrow> hash_text_key env raw_key = None)
   \<and> (strip raw_key \<noteq> [] \<and> list_all is_digit (strip raw_key)
        \<longrightarrow> hash_text_key env raw_key = Some (strip raw_key))
   \<and> hash_text_key env ''123'' = Some ''123''"
  by (simp add: hash_text_key_def Let_def strip_all_space RAW_HASH_RE_def)
   (simp add: strip_def py_isspace_def is_digit_def)

theorem hash_text_key_numeral_witness:
  "list_all py_isspace '' '' \<and> hash_text_key failing_hash_env '' '' = None
   \<and> strip '' 42 '' = ''42'' \<and> list_all is_digit ''42''
   \<and> hash_text_key failing_hash_env '' 42 '' = Some ''42''"
proof -
  have a: "list_all py_isspace '' ''" by (simp add: py_isspace_def)
  have b: "strip '' 42 '' = ''42''" by (simp add: strip_def py_isspace_def)
  have c: "list_all is_digit ''42''" by (simp add: is_digit_def)
  from hash_text_key_numeral [of "'' ''" failing_hash_env] a
  have d: "hash_text_key failing_hash_env '' '' = None" by simp
  from hash_text_key_numeral [of "'' 42 ''" failing_hash_env] b c
  have e: "hash_text_key failing_hash_env '' 42 '' = Some ''42''" by simp
  from a b c d e show ?thesis by simp
qed

text \<open>
  C7. When the in-process path and the external path both fail on the trimmed key and
  the key is not a numeral, \<open>hash_text_key\<close> returns \<open>None\<close>; the text lookup then
  returns \<open>None\<close> for every store and language, as it does on a store without rows,
  and the lookup with fallback returns the fallback. All three are values of total
  functions: no branch of the model is an exception.
\<close>

theorem hash_text_key_fails_closed:
  assumes "xxhash_fails env (strip raw_key)" and "xxhsum_fails env (strip raw_key)"
    and "\<not> RAW_HASH_RE (strip raw_key)"
  shows "hash_text_key env raw_key = None
    \<and> resolve_text_from_key env conn lang (Some raw_key) = None
    \<and> resolve_text_from_key env conn lang (Some raw_key)
        = resolve_text_from_key env (map_of []) lang (Some raw_key)
    \<and> resolve_text_with_fallback env conn lang (Some raw_key) fallback = fallback"
proof -
  have h: "hash_text_key env raw_key = None"
    using assms by (simp add: hash_text_key_def Let_def xxhash_fails_path xxhsum_fails_path)
  then show ?thesis
    by (simp add: resolve_text_from_key_def resolve_text_with_fallback_def truthy_def)
qed

theorem hash_text_key_fails_closed_witness:
  "xxhash_fails failing_hash_env (strip ''Avatar_Name'')
   \<and> xxhsum_fails failing_hash_env (strip ''Avatar_Name'')
   \<and> \<not> RAW_HASH_RE (strip ''Avatar_Name'')
   \<and> hash_text_key failing_hash_env ''Avatar_Name'' = None
   \<and> resolve_text_from_key failing_hash_env empty_text_store ''CHS'' (Some ''Avatar_Name'') = None
   \<and> resolve_text_with_fallback failing_hash_env empty_text_store ''CHS'' (Some ''Avatar_Name'')
        (Some ''x'') = Some ''x''"
proof -
  have s: "strip ''Avatar_Name'' = ''Avatar_Name''" by (simp add: strip_def py_isspace_def)
  have a: "xxhash_fails failing_hash_env (strip ''Avatar_Name'')"
    by (simp add: xxhash_fails_def failing_hash_env_def)
  have b: "xxhsum_fails failing_hash_env (strip ''Avatar_Name'')"
    by (simp add: xxhsum_fails_def failing_hash_env_def)
  have c: "\<not> RAW_HASH_RE (strip ''Avatar_Name'')"
    by (simp add: s RAW_HASH_RE_def is_digit_def)
  from hash_text_key_fails_closed [OF a b c, of empty_text_store "''CHS''" "Some ''x''"] a b c
  show ?thesis by simp
qed

text \<open>
  C6, as stated, fails: a stored text that is the empty string is skipped, so the
  primary language's text is not the one returned. Here the store holds the empty text
  for \<open>(JP, 123)\<close> and the lookup for JP returns the CHS text.
\<close>

theorem fallback_primary_counterexample:
  "empty_text_store (''JP'', ''123'') = Some []
   \<and> hash_text_key no_hash_env ''123'' = Some ''123''
   \<and> resolve_text_with_fallback no_hash_env empty_text_store ''JP'' (Some ''123'') None
       = Some ''abc''"
  by (simp add: resolve_text_with_fallback_def resolve_text_from_key_def hash_123 truthy_def
      empty_text_store_def)

text \<open>
  C6, amended. The lookup with fallback returns the first non-empty text found for the
  key in the languages \<open>lang\<close>, CHS, EN, in this order, and the supplied fallback when
  none of them has a non-empty text; whenever the store holds a non-empty text for
  \<open>(lang, key)\<close>, that text is returned.
\<close>

theorem resolve_text_with_fallback_chain:
  "resolve_text_with_fallback env conn lang raw_key fallback =
     (case filter truthy
        (map (\<lambda>l. resolve_text_from_key env conn l raw_key) [lang, ''CHS'', ''EN'']) of
        [] \<Rightarrow> fallback
      | text # _ \<Rightarrow> text)
   \<and> (raw_key = Some k \<and> k \<noteq> [] \<and> hash_text_key env k = Some h
        \<and> conn (lang, h) = Some t \<and> t \<noteq> []
        \<longrightarrow> resolve_text_with_fallback env conn lang raw_key fallback = Some t)"
  using fallback_chain_filter fallback_primary_nonempty by blast

theorem resolve_text_with_fallback_chain_witness:
  "hash_text_key no_hash_env ''123'' = Some ''123''
   \<and> empty_text_store (''CHS'', ''123'') = Some ''abc''
   \<and> resolve_text_with_fallback no_hash_env empty_text_store ''CHS'' (Some ''123'') None
       = Some ''abc''"
proof -
  have h: "hash_text_key no_hash_env ''123'' = Some ''123''" by (rule hash_123)
  have s: "empty_text_store (''CHS'', ''123'') = Some ''abc''"
    by (simp add: empty_text_store_def)
  from resolve_text_with_fallback_chain
    [of no_hash_env empty_text_store "''CHS''" "Some ''123''" None "''123''" "''123''" "''abc''",
     THEN conjunct2]
  have "resolve_text_with_fallback no_hash_env empty_text_store ''CHS'' (Some ''123'') None
      = Some ''abc''"
    using h s by simp
  with h s show ?thesis by simp
qed

section \<open>Template rendering: results\<close>

lemmas regex_defs = finditer.simps SKILL_PARAM_RE_def match_bracket_def match_percent_def is_digit_def Let_def

lemmas repl_defs = repl_def py_getitem_def int_of_digits_def digit_val_def lower_def
  upper_chars_def lower_chars_def strip_def py_isspace_def fmt_decimals_def is_digit_def
  format_num_def format_fixed_def is_integer_def round_half_even_def str_int_def zfill_def
  rstrip_char_def str_nat.simps Let_def

lemmas parse_defs = parse_param_values_def param_value_def List.map_filter_simps

lemma finditer_stun:
  "finditer stun_template =
     map Lit ''Deals '' @ [Tok tok_1i] @ map Lit '' damage and '' @ [Tok tok_2pct]
       @ map Lit '' chance to stun.''"
  by (simp add: stun_template_def tok_1i_def tok_2pct_def regex_defs)

lemma repl_tok_1i: "repl stun_params tok_1i = Inr ''150''"
  by (simp add: tok_1i_def stun_params_def repl_defs)

lemma repl_tok_2pct: "repl stun_params tok_2pct = Inr ''35%''"
  by (simp add: tok_2pct_def stun_params_def repl_defs)

lemma parse_stun_raw: "parse_param_values jl fs stun_raw = stun_params"
  by (simp add: parse_defs stun_raw_def stun_params_def)

lemma stun_params_nonempty: "stun_params \<noteq> []"
  by (simp add: stun_params_def)

text \<open>
  C4. The template \<open>"Deals #1[i] damage and #2% chance to stun."\<close> with the
  parameters \<open>[150.4, 0.35]\<close> renders as \<open>"Deals 150 damage and 35% chance to stun."\<close>:
  the first placeholder is the first parameter rounded to an integer, the second is
  the natural format of the second parameter times 100, followed by a percent sign.
\<close>

theorem render_stun_example:
  "apply_param_template json_loads float_of_str (Some stun_template) stun_raw
     = Inr (Some ''Deals 150 damage and 35% chance to stun.'')
   \<and> repl stun_params tok_1i = Inr (str_int (round_half_even (1504 / 10)))
   \<and> repl stun_params tok_2pct = Inr (format_num (35 / 100 * 100) None True @ ''%'')"
proof -
  have "apply_param_template json_loads float_of_str (Some stun_template) stun_raw
     = Inr (Some ''Deals 150 damage and 35% chance to stun.'')"
    by (simp add: apply_param_template_def parse_stun_raw stun_params_nonempty re_sub_def
        finditer_stun repl_tok_1i repl_tok_2pct)
  moreover have "str_int (round_half_even (1504 / 10)) = ''150''"
    by (simp add: repl_defs)
  moreover have "format_num (35 / 100 * 100) None True @ ''%'' = ''35%''"
    by (simp add: repl_defs)
  ultimately show ?thesis by (simp add: repl_tok_1i repl_tok_2pct)
qed

theorem render_stun_example_witness:
  "apply_param_template no_json_loads no_float_of_str (Some stun_template) stun_raw
     = Inr (Some ''Deals 150 damage and 35% chance to stun.'')"
  using render_stun_example [of no_json_loads no_float_of_str] by simp



















section \<open>Level statistics: results\<close>

lemma round_half_even_mono: "x \<le> y \<Longrightarrow> round_half_even x \<le> round_half_even y"
proof -
  assume xy: "x \<le> y"
  have fx: "of_int \<lfloor>x\<rfloor> \<le> x" "x < of_int \<lfloor>x\<rfloor> + 1" by linarith+
  have fy: "of_int \<lfloor>y\<rfloor> \<le> y" "y < of_int \<lfloor>y\<rfloor> + 1" by linarith+
  have le: "\<lfloor>x\<rfloor> \<le> \<lfloor>y\<rfloor>" using xy by (rule floor_mono)
  show ?thesis
  proof (cases "\<lfloor>x\<rfloor> = \<lfloor>y\<rfloor>")
    case True
    then show ?thesis using xy by (auto simp: round_half_even_def Let_def)
  next
    case False
    with le have "\<lfloor>x\<rfloor> + 1 \<le> \<lfloor>y\<rfloor>" by simp
    moreover have "round_half_even x \<le> \<lfloor>x\<rfloor> + 1" by (auto simp: round_half_even_def Let_def)
    moreover have "\<lfloor>y\<rfloor> \<le> round_half_even y" by (auto simp: round_half_even_def Let_def)
    ultimately show ?thesis by linarith
  qed
qed

lemma round_ndigits_mono: "x \<le> y \<Longrightarrow> round_ndigits x n \<le> round_ndigits y n"
  unfolding round_ndigits_def
  by (intro divide_right_mono) (auto intro!: round_half_even_mono mult_right_mono)

lemma set_sorted_valid: "set (sorted_valid ps) = {p \<in> set ps. max_level p \<noteq> None}"
  by (auto simp: sorted_valid_def)

lemma sorted_sorted_valid: "sorted (map max_level_key (sorted_valid ps))"
  by (simp add: sorted_valid_def)

lemma find_sorted_least:
  "sorted (map key xs) \<Longrightarrow> find (\<lambda>p. l \<le> key p) xs = Some p \<Longrightarrow> q \<in> set xs \<Longrightarrow>
     l \<le> key q \<Longrightarrow> key p \<le> (key q :: int)"
  by (induction xs) (auto split: if_splits)

lemma sorted_last_greatest:
  "sorted (map key xs) \<Longrightarrow> q \<in> set xs \<Longrightarrow> (key q :: int) \<le> key (last xs)"
  by (induction xs) (auto split: if_splits)

lemma select_stage_in: "valid \<noteq> [] \<Longrightarrow> select_stage valid l \<in> set valid"
  by (auto simp: select_stage_def find_Some_iff split: option.splits)

lemma select_stage_mono:
  assumes "sorted (map max_level_key valid)" "valid \<noteq> []" "l \<le> l'"
  shows "max_level_key (select_stage valid l) \<le> max_level_key (select_stage valid l')"
proof (cases "find (\<lambda>p. l' \<le> max_level_key p) valid")
  case None
  then have "select_stage valid l' = last valid" by (simp add: select_stage_def)
  then show ?thesis
    using sorted_last_greatest [OF assms(1) select_stage_in [OF assms(2)]] by simp
next
  case (Some p')
  then have p': "p' \<in> set valid" "l' \<le> max_level_key p'"
    by (auto simp: find_Some_iff)
  with assms(3) have "l \<le> max_level_key p'" by simp
  with p'(1) have "find (\<lambda>p. l \<le> max_level_key p) valid \<noteq> None"
    by (auto simp: find_None_iff)
  then obtain p where p: "find (\<lambda>p. l \<le> max_level_key p) valid = Some p" by blast
  from find_sorted_least [OF assms(1) p p'(1) \<open>l \<le> max_level_key p'\<close>]
  show ?thesis using p Some by (simp add: select_stage_def)
qed

lemma stat_at_level_mono:
  assumes "0 \<le> g" "b \<le> b'" "g \<le> g'" "1 \<le> l" "l \<le> l'"
  shows "\<exists>x y. stat_at_level (Some b) (Some g) l = Some x
    \<and> stat_at_level (Some b') (Some g') l' = Some y \<and> x \<le> y"
proof -
  have "g * of_int (l - 1) \<le> g' * of_int (l - 1)"
    using assms by (intro mult_right_mono) auto
  also have "\<dots> \<le> g' * of_int (l' - 1)"
    using assms by (intro mult_left_mono) auto
  finally have "b + g * of_int (l - 1) \<le> b' + g' * of_int (l' - 1)"
    using assms(2) by linarith
  then show ?thesis
    by (simp add: stat_at_level_def round_ndigits_mono)
qed

lemma build_nth:
  assumes "sorted_valid ps \<noteq> []" "k < length (build_avatar_level_stats ps n)"
  shows "build_avatar_level_stats ps n ! k
    = level_row (select_stage (sorted_valid ps) (int k + 1)) (int k + 1)"
proof -
  from assms have k: "k < length [1..n]"
    by (simp add: build_avatar_level_stats_def Let_def)
  then have "[1..n] ! k = 1 + int k" by (intro nth_upto) auto
  with assms(1) k show ?thesis
    by (simp add: build_avatar_level_stats_def Let_def add.commute)
qed

lemma curve_nondecreasing:
  assumes ok: "curve_ok base growth ps"
    and out: "\<And>stage l. out (level_row stage l) = stat_at_level (base stage) (growth stage) l"
  shows "nondecreasing (map out (build_avatar_level_stats ps n))"
proof (cases "sorted_valid ps = []")
  case True
  then show ?thesis by (simp add: build_avatar_level_stats_def nondecreasing_def)
next
  case False
  let ?rows = "build_avatar_level_stats ps n"
  let ?valid = "sorted_valid ps"
  show ?thesis
    unfolding nondecreasing_def
  proof (intro allI impI)
    fix i j
    assume ij: "i \<le> j \<and> j < length (map out ?rows)"
    then have i: "i < length ?rows" and j: "j < length ?rows" by simp_all
    let ?p = "select_stage ?valid (int i + 1)"
    let ?q = "select_stage ?valid (int j + 1)"
    have pin: "?p \<in> set ps" "max_level ?p \<noteq> None"
      using select_stage_in [OF False, of "int i + 1"] by (simp_all add: set_sorted_valid)
    have qin: "?q \<in> set ps" "max_level ?q \<noteq> None"
      using select_stage_in [OF False, of "int j + 1"] by (simp_all add: set_sorted_valid)
    have "max_level_key ?p \<le> max_level_key ?q"
      using ij by (intro select_stage_mono [OF sorted_sorted_valid False]) simp
    with ok pin qin obtain b g b' g' where v: "base ?p = Some b" "growth ?p = Some g"
      "base ?q = Some b'" "growth ?q = Some g'" "0 \<le> g" "b \<le> b'" "g \<le> g'"
      unfolding curve_ok_def by blast
    have "\<exists>x y. stat_at_level (Some b) (Some g) (int i + 1) = Some x
      \<and> stat_at_level (Some b') (Some g') (int j + 1) = Some y \<and> x \<le> y"
      using v ij by (intro stat_at_level_mono) auto
    then show "\<exists>a b. map out ?rows ! i = Some a \<and> map out ?rows ! j = Some b \<and> a \<le> b"
      using i j by (simp add: build_nth [OF False] out v)
  qed
qed

text \<open>
  C2, amended. When, for each of hp, attack and defence, base and growth are defined on
  the breakpoints with a defined \<open>max_level\<close>, the growth is non-negative, and base
  and growth do not decrease from a breakpoint to one with the same or a greater
  \<open>max_level\<close>, the rows are monotonic non-decreasing in hp, attack and defence as
  the level increases, for every \<open>level_max\<close>. The empty breakpoint list gives the
  empty list.
\<close>

theorem level_stats_nondecreasing:
  assumes "curve_ok hp_base hp_add ps" and "curve_ok attack_base attack_add ps"
    and "curve_ok defence_base defence_add ps"
  shows "nondecreasing (map hp (build_avatar_level_stats ps n))
    \<and> nondecreasing (map attack (build_avatar_level_stats ps n))
    \<and> nondecreasing (map defence (build_avatar_level_stats ps n))
    \<and> build_avatar_level_stats [] n = []"
proof -
  have "build_avatar_level_stats [] n = []"
    by (simp add: build_avatar_level_stats_def sorted_valid_def)
  then show ?thesis
    using assms by (simp add: curve_nondecreasing level_row_def)
qed

lemmas brk_defs = brk_def sorted_valid_def max_level_key_def select_stage_def level_row_def
  stat_at_level_def round_ndigits_def round_half_even_def Let_def

lemma sorted_valid_falling: "sorted_valid falling_curve = falling_curve"
  by (simp add: falling_curve_def brk_defs)

lemma sorted_valid_rising:
  "sorted_valid rising_curve = [brk 0 20 100 5 100, brk 1 40 150 5 100]"
  by (simp add: rising_curve_def brk_defs)


lemma build_nth':
  "sorted_valid ps = v \<Longrightarrow> v \<noteq> [] \<Longrightarrow> int k < n \<Longrightarrow>
     build_avatar_level_stats ps n ! k = level_row (select_stage v (int k + 1)) (int k + 1)"
  using build_nth [of ps k n] by (simp add: build_avatar_level_stats_def Let_def)

text \<open>
  C2, as stated, fails: non-negative growth does not make the rows monotonic when a
  later stage has a smaller base. With the stages (max level 20, base 100, growth 5)
  and (max level 40, base 50, growth 5), hp is 195 at level 20 and 150 at level 21.
\<close>

theorem level_stats_monotone_counterexample:
  "map max_level falling_curve = [Some 20, Some 40]
   \<and> map hp_add falling_curve = [Some 5, Some 5]
   \<and> map attack_add falling_curve = [Some 5, Some 5]
   \<and> map defence_add falling_curve = [Some 5, Some 5]
   \<and> hp (build_avatar_level_stats falling_curve 21 ! 19) = Some 195
   \<and> hp (build_avatar_level_stats falling_curve 21 ! 20) = Some 150"
proof -
  have a: "build_avatar_level_stats falling_curve 21 ! 19
      = level_row (select_stage falling_curve (int 19 + 1)) (int 19 + 1)"
    by (rule build_nth' [OF sorted_valid_falling]) (simp_all add: falling_curve_def)
  have b: "build_avatar_level_stats falling_curve 21 ! 20
      = level_row (select_stage falling_curve (int 20 + 1)) (int 20 + 1)"
    by (rule build_nth' [OF sorted_valid_falling]) (simp_all add: falling_curve_def)
  show ?thesis
    unfolding a b by (simp add: falling_curve_def brk_defs)
qed

lemma curve_ok_rising:
  "curve_ok hp_base hp_add rising_curve" "curve_ok attack_base attack_add rising_curve"
  "curve_ok defence_base defence_add rising_curve"
  by (simp_all add: curve_ok_def rising_curve_def brk_def max_level_key_def)

theorem level_stats_nondecreasing_witness:
  "curve_ok hp_base hp_add rising_curve \<and> curve_ok attack_base attack_add rising_curve
   \<and> curve_ok defence_base defence_add rising_curve
   \<and> nondecreasing (map hp (build_avatar_level_stats rising_curve 21))
   \<and> hp (build_avatar_level_stats rising_curve 21 ! 19) = Some 195
   \<and> hp (build_avatar_level_stats rising_curve 21 ! 20) = Some 250"
proof -
  have a: "build_avatar_level_stats rising_curve 21 ! 19
      = level_row (select_stage (sorted_valid rising_curve) (int 19 + 1)) (int 19 + 1)"
    by (rule build_nth' [OF refl]) (simp_all add: sorted_valid_rising)
  have b: "build_avatar_level_stats rising_curve 21 ! 20
      = level_row (select_stage (sorted_valid rising_curve) (int 20 + 1)) (int 20 + 1)"
    by (rule build_nth' [OF refl]) (simp_all add: sorted_valid_rising)
  have c: "hp (build_avatar_level_stats rising_curve 21 ! 19) = Some 195"
    unfolding a sorted_valid_rising by (simp add: brk_defs)
  have d: "hp (build_avatar_level_stats rising_curve 21 ! 20) = Some 250"
    unfolding b sorted_valid_rising by (simp add: brk_defs)
  from level_stats_nondecreasing [OF curve_ok_rising, of 21] curve_ok_rising c d
  show ?thesis by simp
qed






section \<open>Reference extraction: results\<close>

























section \<open>Module closure: results\<close>

lemma add_hash_if_any_mono: "out \<subseteq> add_hash_if_any env out raw"
  by (auto simp: add_hash_if_any_def split: option.splits)

lemma add_all_mono: "out \<subseteq> add_all env raws out"
  unfolding add_all_def
proof (induction raws arbitrary: out)
  case Nil
  show ?case by simp
next
  case (Cons r raws)
  have "out \<subseteq> add_hash_if_any env out r" by (rule add_hash_if_any_mono)
  also have "\<dots> \<subseteq> foldl (add_hash_if_any env) (add_hash_if_any env out r) raws"
    by (rule Cons.IH)
  finally show ?case by simp
qed

lemma add_all_mem:
  assumes "Some k \<in> set raws" "k \<noteq> []" "hash_text_key env k = Some h"
  shows "h \<in> add_all env raws out"
  using assms(1)
proof (induction raws arbitrary: out)
  case Nil
  then show ?case by simp
next
  case (Cons r raws)
  show ?case
  proof (cases "r = Some k")
    case True
    have "h \<noteq> []" using assms(3) hash_text_key_nonempty [of env k] by auto
    then have "h \<in> add_hash_if_any env out r"
      using True assms(2,3) by (simp add: add_hash_if_any_def)
    then show ?thesis
      using add_all_mono [of "add_hash_if_any env out r" env raws] by (auto simp: add_all_def)
  next
    case False
    with Cons.prems have "Some k \<in> set raws" by simp
    from Cons.IH [OF this] show ?thesis by (simp add: add_all_def)
  qed
qed

lemma avatar_closure:
  "module_closure env jl idx conn ''avatar'' =
     {h. h \<noteq> [] \<and> (Some h \<in> set (map avatar_name_hash (avatar conn))
        \<or> Some h \<in> set (map avatar_full_name_hash (avatar conn))
        \<or> Some h \<in> set (map skill_name_hash (avatar_skill conn))
        \<or> Some h \<in> set (map skill_desc_hash (avatar_skill conn))
        \<or> Some h \<in> set (map skill_tag_hash (avatar_skill conn)))}
     \<union> {h \<in> (case avatar_story_index idx of
                 None \<Rightarrow> add_all env (concat (map (rank_row_keys jl) (avatar_rank conn))) {}
               | Some stories \<Rightarrow> add_all env (story_keys stories)
                   (add_all env (concat (map (rank_row_keys jl) (avatar_rank conn))) {})). h \<noteq> []}"
  by (auto simp: module_closure_def gather_module_hashes_def add_hashes_from_sql_def
      add_hashes_from_iter_def Let_def split: option.splits)

text \<open>
  C1, as stated, fails: the closure of the avatar module does not collect
  \<open>avatar_rank.trigger_hash\<close>. A rank row whose only key is the trigger hash \<open>777\<close>
  gives a closure without \<open>777\<close>.
\<close>

theorem trigger_hash_counterexample:
  "trigger_rank \<in> set (avatar_rank trigger_db) \<and> trigger_hash trigger_rank = Some ''777''
   \<and> ''777'' \<notin> module_closure no_hash_env no_json_loads no_indexes trigger_db ''avatar''"
  by (simp add: avatar_closure)
    (simp add: trigger_db_def trigger_rank_def empty_db_def no_indexes_def rank_row_keys_def
      rank_ability_keys_def no_json_loads_def add_all_def add_hash_if_any_def)

text \<open>
  C1, amended. The closure of the avatar module contains every non-empty hash field of
  the rows of \<open>avatar\<close> (name and full name) and of \<open>avatar_skill\<close> (name,
  description and tag), and, for every row of \<open>avatar_rank\<close>, the address that
  \<open>hash_text_key\<close> resolves for its name key, its description key and each string of
  its rank abilities. \<open>avatar_promotion\<close> has no hash field.
\<close>

theorem avatar_closure_superset:
  "(\<forall>r \<in> set (avatar conn). \<forall>h. h \<noteq> []
        \<and> (avatar_name_hash r = Some h \<or> avatar_full_name_hash r = Some h)
      \<longrightarrow> h \<in> module_closure env jl idx conn ''avatar'')
   \<and> (\<forall>r \<in> set (avatar_skill conn). \<forall>h. h \<noteq> []
        \<and> (skill_name_hash r = Some h \<or> skill_desc_hash r = Some h \<or> skill_tag_hash r = Some h)
      \<longrightarrow> h \<in> module_closure env jl idx conn ''avatar'')
   \<and> (\<forall>r \<in> set (avatar_rank conn). \<forall>k h. k \<noteq> [] \<and> hash_text_key env k = Some h
        \<and> (name_raw r = Some k \<or> desc_raw r = Some k
             \<or> k \<in> set (rank_ability_keys jl (rank_ability_json r)))
      \<longrightarrow> h \<in> module_closure env jl idx conn ''avatar'')"
proof (intro conjI ballI allI impI)
  fix r h
  assume "r \<in> set (avatar conn)"
    and "h \<noteq> [] \<and> (avatar_name_hash r = Some h \<or> avatar_full_name_hash r = Some h)"
  then show "h \<in> module_closure env jl idx conn ''avatar''"
    unfolding avatar_closure by (auto simp: image_iff intro: bexI [of _ r])
next
  fix r h
  assume "r \<in> set (avatar_skill conn)"
    and "h \<noteq> [] \<and> (skill_name_hash r = Some h \<or> skill_desc_hash r = Some h
      \<or> skill_tag_hash r = Some h)"
  then show "h \<in> module_closure env jl idx conn ''avatar''"
    unfolding avatar_closure by (auto simp: image_iff intro: bexI [of _ r])
next
  fix r k h
  assume r: "r \<in> set (avatar_rank conn)"
    and k: "k \<noteq> [] \<and> hash_text_key env k = Some h
      \<and> (name_raw r = Some k \<or> desc_raw r = Some k
           \<or> k \<in> set (rank_ability_keys jl (rank_ability_json r)))"
  then have "Some k \<in> set (rank_row_keys jl r)"
    by (auto simp: rank_row_keys_def)
  with r have "Some k \<in> set (concat (map (rank_row_keys jl) (avatar_rank conn)))"
    by auto
  with k have m: "h \<in> add_all env (concat (map (rank_row_keys jl) (avatar_rank conn))) {}"
    by (intro add_all_mem [of k]) auto
  have ne: "h \<noteq> []" using k hash_text_key_nonempty [of env k] by auto
  have "h \<in> (case avatar_story_index idx of
      None \<Rightarrow> add_all env (concat (map (rank_row_keys jl) (avatar_rank conn))) {}
    | Some stories \<Rightarrow> add_all env (story_keys stories)
        (add_all env (concat (map (rank_row_keys jl) (avatar_rank conn))) {}))"
  proof (cases "avatar_story_index idx")
    case None
    with m show ?thesis by simp
  next
    case (Some stories)
    from m add_all_mono [of "add_all env (concat (map (rank_row_keys jl) (avatar_rank conn))) {}"
        env "story_keys stories"]
    show ?thesis by (auto simp: Some)
  qed
  with ne show "h \<in> module_closure env jl idx conn ''avatar''"
    unfolding avatar_closure by blast
qed

theorem avatar_closure_superset_witness:
  "hd (avatar named_db) \<in> set (avatar named_db)
   \<and> avatar_name_hash (hd (avatar named_db)) = Some ''123''
   \<and> ''123'' \<in> module_closure no_hash_env no_json_loads no_indexes named_db ''avatar''"
proof -
  have a: "hd (avatar named_db) \<in> set (avatar named_db)"
    by (simp add: named_db_def empty_db_def)
  have b: "avatar_name_hash (hd (avatar named_db)) = Some ''123''"
    by (simp add: named_db_def empty_db_def)
  from avatar_closure_superset [of named_db no_hash_env no_json_loads no_indexes,
      THEN conjunct1, rule_format, OF a, of "''123''"] b
  have "''123'' \<in> module_closure no_hash_env no_json_loads no_indexes named_db ''avatar''"
    by simp
  with a b show ?thesis by simp
qed

end
